theory Spec2Isabelle
  imports Complex_Main
begin

section \<open>Common data: errors, durations, instants\<close>

text \<open>
  Every error of the repository is built by \<^verbatim>\<open>errors.New\<close> or \<^verbatim>\<open>fmt.Errorf\<close> and is
  read back through its text (\<^verbatim>\<open>err.Error()\<close>, \<^verbatim>\<open>%v\<close>, \<^verbatim>\<open>%w\<close>), so an error value is
  its message. A Go value of interface type \<^verbatim>\<open>error\<close> is an \<open>error option\<close>, with
  \<open>None\<close> for \<^verbatim>\<open>nil\<close>.
\<close>

datatype error = errorString string

fun Error :: "error \<Rightarrow> string" where
  "Error (errorString s) = s"

text \<open>
  \<^verbatim>\<open>time.Duration\<close> is a signed 64-bit count of nanoseconds. Durations are integers
  here and the wrap-around of the one 64-bit addition of the retry loop is written out
  with \<open>int64\<close>.
\<close>

type_synonym Duration = int

definition int64 :: "int \<Rightarrow> int" where
  "int64 x = (x + 2 ^ 63) mod 2 ^ 64 - 2 ^ 63"

definition Second :: Duration where
  "Second = 1000000000"

definition Hour :: Duration where
  "Hour = 3600 * Second"

section \<open>The retry executor (retry.go)\<close>

subsection \<open>Error classification\<close>

text \<open>\<^verbatim>\<open>strings.Contains(s, substr)\<close>: \<open>substr\<close> occurs in \<open>s\<close> as a contiguous block.\<close>

fun Contains :: "string \<Rightarrow> string \<Rightarrow> bool" where
  "Contains [] substr = (substr = [])"
| "Contains (c # s) substr = (take (length substr) (c # s) = substr \<or> Contains s substr)"

definition IsTimeoutError :: "error option \<Rightarrow> bool" where
  "IsTimeoutError err =
     (err \<noteq> None \<and> (Contains (Error (the err)) ''timeout'' \<or>
                     Contains (Error (the err)) ''deadline'' \<or>
                     Contains (Error (the err)) ''timed out''))"

definition IsNetworkError :: "error option \<Rightarrow> bool" where
  "IsNetworkError err =
     (if err = None then False
      else (let errorMessage = Error (the err)
            in Contains errorMessage ''network'' \<or>
               Contains errorMessage ''connection'' \<or>
               Contains errorMessage ''broken pipe'' \<or>
               Contains errorMessage ''reset'' \<or>
               Contains errorMessage ''EOF'' \<or>
               Contains errorMessage ''closed''))"

definition IsRetryableError :: "error option \<Rightarrow> bool" where
  "IsRetryableError err = (IsTimeoutError err \<or> IsNetworkError err)"

subsection \<open>What the loop reads from outside\<close>

text \<open>
  The loop of \<^verbatim>\<open>RetryWithBackoff\<close> reads four things that are not pure functions of its
  arguments. Each is an input of the model, indexed by the loop counter \<open>attempt\<close>
  (the loop calls \<^verbatim>\<open>operation\<close> once, draws one random number and waits at most once per
  iteration):
  \<^item> \<open>operation attempt\<close>: what the call \<^verbatim>\<open>operation()\<close> of that iteration returns;
  \<^item> \<open>ctx attempt\<close>: whether the \<^verbatim>\<open>select\<close> of that iteration takes the
    \<^verbatim>\<open>ctx.Done()\<close> case, that is, the caller's cancellation fires before the timer
    \<^verbatim>\<open>time.After(nextBackoff)\<close> does;
  \<^item> \<open>Float64 rt attempt\<close>: the number that \<^verbatim>\<open>r.Float64()\<close> returns in that iteration;
  \<^item> \<open>inexactDouble rt backoff\<close>: the value of \<^verbatim>\<open>time.Duration(float64(backoff) * 2.0)\<close>
    when \<open>backoff\<close> is beyond \<open>2 ^ 53\<close> in magnitude, where the conversion to
    \<^verbatim>\<open>float64\<close> may round and the conversion back may leave the 64-bit range.
\<close>

text \<open>
  \<^verbatim>\<open>Float64\<close> of \<^verbatim>\<open>math/rand\<close> returns a number of the half-open interval \<open>[0, 1)\<close>,
  and nothing else is known of it: the type of its results is that interval, and
  \<open>draw u\<close> reads a result \<open>u\<close> as a number.
\<close>

typedef unit_interval = "{u :: real. 0 \<le> u \<and> u < 1}"
  morphisms draw Abs_unit_interval
  by (rule exI [of _ 0]) simp

setup_lifting type_definition_unit_interval

record runtime =
  Float64 :: "nat \<Rightarrow> unit_interval"
  inexactDouble :: "Duration \<Rightarrow> Duration"

text \<open>
  The conversion \<^verbatim>\<open>time.Duration(x)\<close> of a floating-point \<open>x\<close> drops the fraction, towards
  zero.
\<close>

definition Duration_of_float64 :: "real \<Rightarrow> Duration" where
  "Duration_of_float64 x = (if 0 \<le> x then \<lfloor>x\<rfloor> else \<lceil>x\<rceil>)"

text \<open>
  The two lines \<^verbatim>\<open>jitter := 0.1 * float64(backoff)\<close> and
  \<^verbatim>\<open>randomJitter := time.Duration(r.Float64() * jitter)\<close>. The constant \<^verbatim>\<open>0.1\<close> is one
  tenth and the two products are taken in the real numbers: the rounding of \<^verbatim>\<open>float64\<close>,
  a relative error below \<open>2 ^ -52\<close> in the constant and in each product, is left out.
\<close>

definition randomJitter :: "runtime \<Rightarrow> nat \<Rightarrow> Duration \<Rightarrow> Duration" where
  "randomJitter rt attempt backoff =
     (let jitter = (1 / 10) * real_of_int backoff
      in Duration_of_float64 (draw (Float64 rt attempt) * jitter))"

text \<open>
  \<^verbatim>\<open>time.Duration(float64(backoff) * 2.0)\<close>. Every integer of magnitude at most
  \<open>2 ^ 53\<close> is a \<^verbatim>\<open>float64\<close>, doubling a \<^verbatim>\<open>float64\<close> is exact, and the double is
  below \<open>2 ^ 63\<close>: in that range the result is \<open>2 * backoff\<close>.
\<close>

definition doubleBackoff :: "runtime \<Rightarrow> Duration \<Rightarrow> Duration" where
  "doubleBackoff rt backoff =
     (if \<bar>backoff\<bar> \<le> 2 ^ 53 then 2 * backoff else inexactDouble rt backoff)"

subsection \<open>The loop and its trace\<close>

text \<open>
  What a run does, in order:
  \<^item> \<open>LogInfo attempt maxRetries backoff\<close>: the call
    \<^verbatim>\<open>logger.Info("Retrying operation (attempt %d/%d) after %v delay", ...)\<close>;
  \<^item> \<open>Call attempt\<close>: the call \<^verbatim>\<open>operation()\<close> of iteration \<open>attempt\<close>;
  \<^item> \<open>LogError n err\<close>: the call
    \<^verbatim>\<open>logger.Error("Operation failed after %d attempts: %v", maxRetries+1, err)\<close>;
  \<^item> \<open>Sleep backoff randomJitter nextBackoff\<close>: the \<^verbatim>\<open>select\<close> took the case
    \<^verbatim>\<open>time.After(nextBackoff)\<close>, the wait ran to its end;
  \<^item> \<open>Cancelled backoff randomJitter nextBackoff\<close>: the \<^verbatim>\<open>select\<close> took the case
    \<^verbatim>\<open>ctx.Done()\<close>.
  The last two record the variables \<open>backoff\<close> (the delay before jitter) and
  \<open>randomJitter\<close> (the jitter drawn) at that point, beside the \<open>nextBackoff\<close> that the
  timer was set to.
\<close>

datatype event =
    LogInfo nat int Duration
  | Call nat
  | LogError int "error option"
  | Sleep Duration Duration Duration
  | Cancelled Duration Duration Duration

definition emit :: "event list \<Rightarrow> error option \<times> event list \<Rightarrow> error option \<times> event list" where
  "emit evs r = (fst r, evs @ snd r)"

text \<open>
  The block \<^verbatim>\<open>// Calculate next backoff with jitter\<close> with the cap that follows it: the
  jitter is drawn against \<open>backoff\<close>, added to it in 64 bits, and the sum is cut down to
  \<open>maxBackoff\<close>.
\<close>

definition nextBackoff :: "runtime \<Rightarrow> nat \<Rightarrow> Duration \<Rightarrow> Duration \<Rightarrow> Duration" where
  "nextBackoff rt attempt backoff maxBackoff =
     (let jitter = randomJitter rt attempt backoff;
          jittered = int64 (backoff + jitter)
      in if jittered > maxBackoff then maxBackoff else jittered)"

text \<open>The \<^verbatim>\<open>logger.Info\<close> call at the head of the loop body.\<close>

definition retryLog :: "nat \<Rightarrow> int \<Rightarrow> Duration \<Rightarrow> event list" where
  "retryLog attempt maxRetries backoff =
     (if attempt > 0 then [LogInfo attempt maxRetries backoff] else [])"

text \<open>
  The \<^verbatim>\<open>for\<close> loop, from the values of \<open>attempt\<close>, \<open>backoff\<close> and \<open>err\<close> at the loop
  test. The counter \<open>attempt\<close> starts at 0 and only grows, so it is a natural number;
  \<open>maxRetries\<close> is any integer (below the largest \<^verbatim>\<open>int\<close>, so that \<^verbatim>\<open>attempt++\<close> does
  not wrap before the loop test fails). \<open>err0\<close> is the variable \<^verbatim>\<open>err\<close> on entry, which
  the \<^verbatim>\<open>return err\<close> after the loop reads.
\<close>

function retryLoop ::
  "runtime \<Rightarrow> (nat \<Rightarrow> bool) \<Rightarrow> int \<Rightarrow> Duration \<Rightarrow> (nat \<Rightarrow> error option) \<Rightarrow>
   (error option \<Rightarrow> bool) \<Rightarrow> nat \<Rightarrow> Duration \<Rightarrow> error option \<Rightarrow> error option \<times> event list"
where
  "retryLoop rt ctx maxRetries maxBackoff operation errorClassifier attempt backoff err0 =
     (if int attempt \<le> maxRetries then
        (let logged = retryLog attempt maxRetries backoff;
             err = operation attempt
         in if err = None \<or> \<not> errorClassifier err then
              (err, logged @ [Call attempt])
            else if int attempt = maxRetries then
              (err, logged @ [Call attempt, LogError (maxRetries + 1) err])
            else if ctx attempt then
              (Some (errorString ''operation cancelled during backoff''),
               logged @ [Call attempt,
                         Cancelled backoff (randomJitter rt attempt backoff)
                           (nextBackoff rt attempt backoff maxBackoff)])
            else
              emit (logged @ [Call attempt,
                              Sleep backoff (randomJitter rt attempt backoff)
                                (nextBackoff rt attempt backoff maxBackoff)])
                (retryLoop rt ctx maxRetries maxBackoff operation errorClassifier
                   (Suc attempt) (doubleBackoff rt backoff) err))
      else (err0, []))"
  by pat_completeness auto
termination
  by (relation "measure (\<lambda>(rt, ctx, maxRetries, maxBackoff, operation, errorClassifier,
                            attempt, backoff, err0). nat (maxRetries + 1 - int attempt))")
     auto

definition RetryWithBackoff ::
  "runtime \<Rightarrow> (nat \<Rightarrow> bool) \<Rightarrow> int \<Rightarrow> Duration \<Rightarrow> Duration \<Rightarrow> (nat \<Rightarrow> error option) \<Rightarrow>
   (error option \<Rightarrow> bool) \<Rightarrow> error option \<times> event list" where
  "RetryWithBackoff rt ctx maxRetries initialBackoff maxBackoff operation errorClassifier =
     retryLoop rt ctx maxRetries maxBackoff operation errorClassifier 0 initialBackoff None"

subsection \<open>Reading a trace\<close>

fun calls :: "event list \<Rightarrow> nat" where
  "calls [] = 0"
| "calls (Call k # evs) = Suc (calls evs)"
| "calls (_ # evs) = calls evs"

fun baseDelays :: "event list \<Rightarrow> Duration list" where
  "baseDelays [] = []"
| "baseDelays (Sleep b j w # evs) = b # baseDelays evs"
| "baseDelays (Cancelled b j w # evs) = b # baseDelays evs"
| "baseDelays (_ # evs) = baseDelays evs"



section \<open>Model identifiers (models.go)\<close>

record DeepseekModelInfo =
  model_ID :: string
  model_Name :: string
  model_Description :: string

definition getFallbackDeepseekModels :: "DeepseekModelInfo list" where
  "getFallbackDeepseekModels =
     [\<lparr>model_ID = ''deepseek-chat'', model_Name = ''DeepSeek Chat'',
       model_Description =
         ''General-purpose chat model from DeepSeek, balancing performance and efficiency''\<rparr>,
      \<lparr>model_ID = ''deepseek-coder'', model_Name = ''DeepSeek Coder'',
       model_Description = ''Specialized model for coding and technical tasks''\<rparr>,
      \<lparr>model_ID = ''deepseek-reasoner'', model_Name = ''DeepSeek Reasoner'',
       model_Description = ''Model optimized for reasoning and problem-solving tasks''\<rparr>]"

definition GetAvailableDeepseekModels :: "DeepseekModelInfo list" where
  "GetAvailableDeepseekModels = getFallbackDeepseekModels"

text \<open>The package-level \<^verbatim>\<open>GetModelByID\<close>: the first model of the list with that id.\<close>

fun firstWithID :: "DeepseekModelInfo list \<Rightarrow> string \<Rightarrow> DeepseekModelInfo option" where
  "firstWithID [] modelID = None"
| "firstWithID (model # models) modelID =
     (if model_ID model = modelID then Some model else firstWithID models modelID)"

definition GetModelByID :: "string \<Rightarrow> DeepseekModelInfo option" where
  "GetModelByID modelID = firstWithID GetAvailableDeepseekModels modelID"

text \<open>
  The package-level \<^verbatim>\<open>ValidateModelID\<close>, the one \<^verbatim>\<open>createCache\<close> calls. Its error lists
  the available models, one per line.
\<close>

definition ValidateModelID :: "string \<Rightarrow> error option" where
  "ValidateModelID modelID =
     (if GetModelByID modelID \<noteq> None then None
      else Some (errorString
             (''Invalid model ID: '' @ modelID @ ''. Available models are:'' @
              concat (map (\<lambda>model. CHR 0x0A # ''- '' @ model_ID model @ '': '' @ model_Name model)
                        GetAvailableDeepseekModels))))"

section \<open>The cache store (cache.go)\<close>

text \<open>
  A \<^verbatim>\<open>time.Time\<close> is the instant it denotes, counted in nanoseconds since the Unix epoch
  (what \<^verbatim>\<open>UnixNano()\<close> returns): \<^verbatim>\<open>t.Add(d)\<close> is \<open>t + d\<close>, \<^verbatim>\<open>t.After(u)\<close> is \<open>t > u\<close>
  and \<^verbatim>\<open>t.Sub(u)\<close> is \<open>t - u\<close>.
\<close>

type_synonym Time = int

text \<open>The fields of \<^verbatim>\<open>Config\<close> that the cache store and the retry executor are given.\<close>

record Config =
  EnableCaching :: bool
  DefaultCacheTTL :: Duration
  MaxRetries :: int
  InitialBackoff :: Duration
  MaxBackoff :: Duration

record CacheRequest =
  req_Model :: string
  req_SystemPrompt :: string
  req_FilePaths :: "string list"
  req_TTL :: string

record CacheInfo =
  ID :: string
  SystemPrompt :: string
  Model :: string
  FilePaths :: "string list"
  CreatedAt :: Time
  ExpiresAt :: Time

text \<open>
  The two fields of \<^verbatim>\<open>DeepseekServer\<close> that the cache store uses. The Go map
  \<^verbatim>\<open>caches\<close> is a partial function from ids to entries; every access to it in
  \<^verbatim>\<open>cache.go\<close> is made under \<^verbatim>\<open>cacheMu\<close>, one map operation per critical section.
\<close>

record DeepseekServer =
  config :: Config
  caches :: "string \<rightharpoonup> CacheInfo"

text \<open>The verb \<^verbatim>\<open>%d\<close> of \<^verbatim>\<open>fmt.Sprintf\<close> on an integer: decimal, with a sign if negative.\<close>

fun decimal :: "nat \<Rightarrow> string" where
  "decimal n = (if n < 10 then [''0123456789'' ! n]
                else decimal (n div 10) @ [''0123456789'' ! (n mod 10)])"

definition Sprintf_d :: "int \<Rightarrow> string" where
  "Sprintf_d i = (if i < 0 then CHR ''-'' # decimal (nat (- i)) else decimal (nat i))"

text \<open>
  The block \<^verbatim>\<open>// Parse TTL\<close> of \<^verbatim>\<open>createCache\<close>: the configured default for an empty
  string, else what \<^verbatim>\<open>time.ParseDuration\<close> returns. That library function is a
  parameter, \<open>ParseDuration\<close>.
\<close>

definition parseTTL ::
  "(string \<Rightarrow> error + Duration) \<Rightarrow> DeepseekServer \<Rightarrow> CacheRequest \<Rightarrow> error + Duration" where
  "parseTTL ParseDuration s req =
     (if req_TTL req = '''' then Inr (DefaultCacheTTL (config s))
      else (case ParseDuration (req_TTL req) of
              Inl err \<Rightarrow> Inl (errorString (''invalid TTL format: '' @ Error err))
            | Inr ttl \<Rightarrow> Inr ttl))"

text \<open>
  \<^verbatim>\<open>createCache\<close>. Beside the server and the request it reads the clock, twice:
  \<open>now1\<close> is the \<^verbatim>\<open>time.Now()\<close> of the id and \<open>now2\<close> the \<^verbatim>\<open>time.Now()\<close> of
  \<^verbatim>\<open>createdAt\<close>. It returns its result and the server after the call. The logger calls
  are left out.
\<close>

definition createCache ::
  "(string \<Rightarrow> error + Duration) \<Rightarrow> Time \<Rightarrow> Time \<Rightarrow> DeepseekServer \<Rightarrow> CacheRequest \<Rightarrow>
   (error + CacheInfo) \<times> DeepseekServer" where
  "createCache ParseDuration now1 now2 s req =
     (if \<not> EnableCaching (config s) then (Inl (errorString ''caching is disabled''), s)
      else if req_Model req = '''' then (Inl (errorString ''model is required''), s)
      else case ValidateModelID (req_Model req) of
        Some err \<Rightarrow> (Inl (errorString (''invalid model: '' @ Error err)), s)
      | None \<Rightarrow>
         (case parseTTL ParseDuration s req of
            Inl err \<Rightarrow> (Inl err, s)
          | Inr ttl \<Rightarrow>
             (let cacheID = ''cache-'' @ Sprintf_d now1;
                  createdAt = now2;
                  expiresAt = createdAt + ttl;
                  cacheInfo = \<lparr>ID = cacheID, SystemPrompt = req_SystemPrompt req,
                               Model = req_Model req, FilePaths = req_FilePaths req,
                               CreatedAt = createdAt, ExpiresAt = expiresAt\<rparr>
              in (Inr cacheInfo, s\<lparr>caches := (caches s)(cacheID \<mapsto> cacheInfo)\<rparr>))))"

text \<open>\<^verbatim>\<open>getCache\<close>, with \<open>now\<close> the reading of \<^verbatim>\<open>time.Now()\<close> in the expiry test and
  \<open>cid\<close> the parameter \<^verbatim>\<open>id\<close>.\<close>

definition getCache ::
  "Time \<Rightarrow> DeepseekServer \<Rightarrow> string \<Rightarrow> (error + CacheInfo) \<times> DeepseekServer" where
  "getCache now s cid =
     (case caches s cid of
        Some info \<Rightarrow>
          (if now > ExpiresAt info then
             (Inl (errorString ''cache has expired''), s\<lparr>caches := (caches s)(cid := None)\<rparr>)
           else (Inr info, s))
      | None \<Rightarrow> (Inl (errorString (''cache not found: '' @ cid)), s))"

text \<open>
  A run of \<^verbatim>\<open>getCache\<close> calls for one id, one call per clock reading of the list, each
  on the server the previous call left.
\<close>

fun getCacheSeq :: "Time list \<Rightarrow> DeepseekServer \<Rightarrow> string \<Rightarrow> (error + CacheInfo) list" where
  "getCacheSeq [] s cid = []"
| "getCacheSeq (now # nows) s cid =
     fst (getCache now s cid) # getCacheSeq nows (snd (getCache now s cid)) cid"

section \<open>Concrete inputs\<close>

text \<open>The defaults of \<^verbatim>\<open>NewConfig\<close>, and a server that has stored nothing yet.\<close>

definition defaultConfig :: Config where
  "defaultConfig = \<lparr>EnableCaching = True, DefaultCacheTTL = Hour, MaxRetries = 2,
                     InitialBackoff = Second, MaxBackoff = 10 * Second\<rparr>"

definition newServer :: DeepseekServer where
  "newServer = \<lparr>config = defaultConfig, caches = Map.empty\<rparr>"

definition disabledServer :: DeepseekServer where
  "disabledServer = \<lparr>config = defaultConfig\<lparr>EnableCaching := False\<rparr>, caches = Map.empty\<rparr>"

text \<open>
  A stand-in for \<^verbatim>\<open>time.ParseDuration\<close> which agrees with it on the three strings
  \<^verbatim>\<open>"1h"\<close>, \<^verbatim>\<open>"0s"\<close> and \<^verbatim>\<open>"-1h"\<close> and rejects every other string.
\<close>

definition parseDurationStub :: "string \<Rightarrow> error + Duration" where
  "parseDurationStub str =
     (if str = ''1h'' then Inr Hour
      else if str = ''0s'' then Inr 0
      else if str = ''-1h'' then Inr (- Hour)
      else Inl (errorString (''time: invalid duration '' @ str)))"

definition chatRequest :: "string \<Rightarrow> string \<Rightarrow> CacheRequest" where
  "chatRequest prompt ttl =
     \<lparr>req_Model = ''deepseek-chat'', req_SystemPrompt = prompt, req_FilePaths = [],
      req_TTL = ttl\<rparr>"

text \<open>
  For the retry executor: an operation that fails with the same error at every call, a
  context that is never cancelled and one that is cancelled during the second wait, a
  random source that always draws 0 and one that always draws 0.9, and classifiers that
  accept or reject everything.
\<close>

definition alwaysFails :: "string \<Rightarrow> nat \<Rightarrow> error option" where
  "alwaysFails msg attempt = Some (errorString msg)"

definition neverDone :: "nat \<Rightarrow> bool" where
  "neverDone attempt = False"

definition doneInSecondWait :: "nat \<Rightarrow> bool" where
  "doneInSecondWait attempt = (attempt = 1)"

lift_definition zeroDraw :: unit_interval is 0
  by simp


definition noJitter :: runtime where
  "noJitter = \<lparr>Float64 = (\<lambda>attempt. zeroDraw), inexactDouble = (\<lambda>backoff. 0)\<rparr>"


definition retryAll :: "error option \<Rightarrow> bool" where
  "retryAll err = True"

definition retryNone :: "error option \<Rightarrow> bool" where
  "retryNone err = False"

text \<open>The entries that requests made of \<open>chatRequest\<close> create at the clock readings used below.\<close>

definition briefEntry :: CacheInfo where
  "briefEntry = \<lparr>ID = ''cache-1000'', SystemPrompt = ''be brief'', Model = ''deepseek-chat'',
                  FilePaths = [], CreatedAt = 1001, ExpiresAt = 1001 + Hour\<rparr>"

definition staleEntry :: CacheInfo where
  "staleEntry = \<lparr>ID = ''cache-1000'', SystemPrompt = ''be brief'', Model = ''deepseek-chat'',
                  FilePaths = [], CreatedAt = 1001, ExpiresAt = 1001 - Hour\<rparr>"

definition thoroughEntry :: CacheInfo where
  "thoroughEntry = \<lparr>ID = ''cache-1000'', SystemPrompt = ''be thorough'',
                     Model = ''deepseek-chat'', FilePaths = [], CreatedAt = 1002,
                     ExpiresAt = 1002 + Hour\<rparr>"

section \<open>Facts about the retry executor\<close>

subsection \<open>Traces\<close>

lemma calls_append: "calls (xs @ ys) = calls xs + calls ys"
  by (induction xs rule: calls.induct) simp_all




lemma calls_retryLog: "calls (retryLog a mr b) = 0"
  by (simp add: retryLog_def)




lemma Cancelled_retryLog: "Cancelled b' j' w' \<notin> set (retryLog a mr b)"
  by (simp add: retryLog_def)

subsection \<open>The five ways through one iteration\<close>

text \<open>
  The defining equation of \<open>retryLoop\<close> is taken out of the simplifier and replaced by
  one rule per path through the loop body.
\<close>

declare retryLoop.simps [simp del]

lemma retryLoop_exit:
  "\<not> int a \<le> mr \<Longrightarrow> retryLoop rt ctx mr mb op cl a b e0 = (e0, [])"
  by (simp add: retryLoop.simps)

lemma retryLoop_return:
  "int a \<le> mr \<Longrightarrow> op a = None \<or> \<not> cl (op a) \<Longrightarrow>
   retryLoop rt ctx mr mb op cl a b e0 = (op a, retryLog a mr b @ [Call a])"
  by (subst retryLoop.simps) (auto simp: Let_def)

lemma retryLoop_last:
  "int a = mr \<Longrightarrow> op a \<noteq> None \<Longrightarrow> cl (op a) \<Longrightarrow>
   retryLoop rt ctx mr mb op cl a b e0 =
     (op a, retryLog a mr b @ [Call a, LogError (mr + 1) (op a)])"
  by (subst retryLoop.simps) (auto simp: Let_def)

lemma retryLoop_cancel:
  "int a < mr \<Longrightarrow> op a \<noteq> None \<Longrightarrow> cl (op a) \<Longrightarrow> ctx a \<Longrightarrow>
   retryLoop rt ctx mr mb op cl a b e0 =
     (Some (errorString ''operation cancelled during backoff''),
      retryLog a mr b @
        [Call a, Cancelled b (randomJitter rt a b) (nextBackoff rt a b mb)])"
  by (subst retryLoop.simps) (auto simp: Let_def)

lemma retryLoop_step:
  "int a < mr \<Longrightarrow> op a \<noteq> None \<Longrightarrow> cl (op a) \<Longrightarrow> \<not> ctx a \<Longrightarrow>
   retryLoop rt ctx mr mb op cl a b e0 =
     emit (retryLog a mr b @
           [Call a, Sleep b (randomJitter rt a b) (nextBackoff rt a b mb)])
       (retryLoop rt ctx mr mb op cl (Suc a) (doubleBackoff rt b) (op a))"
  by (subst retryLoop.simps) (auto simp: Let_def)

subsection \<open>The shape of every run\<close>

text \<open>
  A run that enters the loop at \<open>attempt = a\<close> goes through the iterations \<open>a, \<dots>, k\<close>
  for some \<open>k \<le> maxRetries\<close>: every call before the \<open>k\<close>-th failed with an error the
  classifier accepted and was followed by a wait that ran to its end, and the run ends in
  iteration \<open>k\<close> in one of three ways: the call succeeded or its error was rejected; its
  error was accepted and \<open>k = maxRetries\<close>; its error was accepted and the wait was
  cancelled.
\<close>

lemma retryLoop_shape:
  "int a \<le> mr \<Longrightarrow> retryLoop rt ctx mr mb op cl a b e0 = (res, tr) \<Longrightarrow>
   \<exists>pre k. a \<le> k \<and> int k \<le> mr \<and> calls tr = Suc k - a \<and>
     (\<forall>j. a \<le> j \<and> j < k \<longrightarrow> op j \<noteq> None \<and> cl (op j) \<and> \<not> ctx j) \<and>
     (\<forall>b' j' w'. Cancelled b' j' w' \<notin> set pre) \<and>
     (tr = pre @ [Call k] \<and> res = op k \<and> (op k = None \<or> \<not> cl (op k)) \<or>
      tr = pre @ [Call k, LogError (mr + 1) (op k)] \<and> res = op k \<and> op k \<noteq> None \<and>
        cl (op k) \<and> int k = mr \<or>
      tr = pre @ [Call k, Cancelled ((doubleBackoff rt ^^ (k - a)) b)
                    (randomJitter rt k ((doubleBackoff rt ^^ (k - a)) b))
                    (nextBackoff rt k ((doubleBackoff rt ^^ (k - a)) b) mb)] \<and>
        res = Some (errorString ''operation cancelled during backoff'') \<and>
        op k \<noteq> None \<and> cl (op k) \<and> int k < mr \<and> ctx k)"
proof (induction "nat (mr - int a)" arbitrary: a b e0 res tr)
  case 0
  then have eq: "int a = mr" by simp
  show ?case
  proof (cases "op a = None \<or> \<not> cl (op a)")
    case True
    with 0 have "res = op a" "tr = retryLog a mr b @ [Call a]"
      by (simp_all add: retryLoop_return)
    with True 0 show ?thesis
      by (intro exI[of _ "retryLog a mr b"] exI[of _ a])
        (auto simp: calls_append calls_retryLog Cancelled_retryLog)
  next
    case False
    have "retryLoop rt ctx mr mb op cl a b e0 =
        (op a, retryLog a mr b @ [Call a, LogError (mr + 1) (op a)])"
      using eq False by (intro retryLoop_last) auto
    with 0(3) have "res = op a" "tr = retryLog a mr b @ [Call a, LogError (mr + 1) (op a)]"
      by auto
    with False 0 eq show ?thesis
      by (intro exI[of _ "retryLog a mr b"] exI[of _ a])
        (auto simp: calls_append calls_retryLog Cancelled_retryLog)
  qed
next
  case (Suc n)
  then have lt: "int a < mr" by simp
  show ?case
  proof (cases "op a = None \<or> \<not> cl (op a)")
    case True
    with Suc have "res = op a" "tr = retryLog a mr b @ [Call a]"
      by (simp_all add: retryLoop_return)
    with True Suc show ?thesis
      by (intro exI[of _ "retryLog a mr b"] exI[of _ a])
        (auto simp: calls_append calls_retryLog Cancelled_retryLog)
  next
    case False
    show ?thesis
    proof (cases "ctx a")
      case True
      with False lt Suc.prems
      have "res = Some (errorString ''operation cancelled during backoff'')"
        "tr = retryLog a mr b @
           [Call a, Cancelled b (randomJitter rt a b) (nextBackoff rt a b mb)]"
        by (simp_all add: retryLoop_cancel)
      with True False lt show ?thesis
        by (intro exI[of _ "retryLog a mr b"] exI[of _ a])
          (auto simp: calls_append calls_retryLog Cancelled_retryLog)
    next
      case live: False
      obtain res' tr' where
        rest: "retryLoop rt ctx mr mb op cl (Suc a) (doubleBackoff rt b) (op a) = (res', tr')"
        by (cases "retryLoop rt ctx mr mb op cl (Suc a) (doubleBackoff rt b) (op a)")
      from False live lt Suc.prems rest have res: "res = res'"
        and tr: "tr = (retryLog a mr b @
                 [Call a, Sleep b (randomJitter rt a b) (nextBackoff rt a b mb)]) @ tr'"
        by (simp_all add: retryLoop_step emit_def)
      have n: "n = nat (mr - int (Suc a))" using Suc.hyps(2) by simp
      have le: "int (Suc a) \<le> mr" using lt by simp
      from Suc.hyps(1)[OF n le rest] obtain pre k where
        k: "Suc a \<le> k" "int k \<le> mr" "calls tr' = Suc k - Suc a"
        and before: "\<forall>j. Suc a \<le> j \<and> j < k \<longrightarrow> op j \<noteq> None \<and> cl (op j) \<and> \<not> ctx j"
        and clean: "\<forall>b' j' w'. Cancelled b' j' w' \<notin> set pre"
        and shape:
          "tr' = pre @ [Call k] \<and> res' = op k \<and> (op k = None \<or> \<not> cl (op k)) \<or>
           tr' = pre @ [Call k, LogError (mr + 1) (op k)] \<and> res' = op k \<and> op k \<noteq> None \<and>
             cl (op k) \<and> int k = mr \<or>
           tr' = pre @ [Call k,
                  Cancelled ((doubleBackoff rt ^^ (k - Suc a)) (doubleBackoff rt b))
                    (randomJitter rt k
                       ((doubleBackoff rt ^^ (k - Suc a)) (doubleBackoff rt b)))
                    (nextBackoff rt k
                       ((doubleBackoff rt ^^ (k - Suc a)) (doubleBackoff rt b)) mb)] \<and>
             res' = Some (errorString ''operation cancelled during backoff'') \<and>
             op k \<noteq> None \<and> cl (op k) \<and> int k < mr \<and> ctx k"
        by blast
      have pow: "(doubleBackoff rt ^^ (k - Suc a)) (doubleBackoff rt b) =
                 (doubleBackoff rt ^^ (k - a)) b"
      proof -
        have "k - a = Suc (k - Suc a)" using k(1) by simp
        then show ?thesis by (simp only: funpow_Suc_right o_apply)
      qed
      have before': "\<forall>j. a \<le> j \<and> j < k \<longrightarrow> op j \<noteq> None \<and> cl (op j) \<and> \<not> ctx j"
      proof (intro allI impI)
        fix j assume "a \<le> j \<and> j < k"
        then consider "j = a" | "Suc a \<le> j \<and> j < k" by linarith
        then show "op j \<noteq> None \<and> cl (op j) \<and> \<not> ctx j"
          using False live before by cases auto
      qed
      have calls: "calls tr = Suc k - a"
        using k by (simp add: tr calls_append calls_retryLog)
      let ?pre = "(retryLog a mr b @
                   [Call a, Sleep b (randomJitter rt a b) (nextBackoff rt a b mb)]) @ pre"
      have clean': "\<forall>b' j' w'. Cancelled b' j' w' \<notin> set ?pre"
        using clean by (simp add: Cancelled_retryLog)
      show ?thesis
        apply (rule exI[of _ ?pre], rule exI[of _ k])
        using k(1,2) calls before' clean' shape unfolding pow res tr
        by auto
    qed
  qed
qed

subsection \<open>Where a run stops\<close>

text \<open>
  If every call before the \<open>k\<close>-th fails with an error the classifier accepts and is
  followed by a wait that is not cancelled, and iteration \<open>k\<close> is one in which the loop
  returns (the call succeeds, or its error is rejected, or \<open>k = maxRetries\<close>, or the wait
  is cancelled), then the run ends in iteration \<open>k\<close>, after \<open>k + 1\<close> calls.
\<close>

lemma retryLoop_reach:
  assumes before: "\<forall>j<k. op j \<noteq> None \<and> cl (op j) \<and> \<not> ctx j"
      and le: "int k \<le> mr"
      and stop: "op k = None \<or> \<not> cl (op k) \<or> int k = mr \<or> ctx k"
      and run: "retryLoop rt ctx mr mb op cl 0 b e0 = (res, tr)"
  shows "\<exists>pre. calls tr = Suc k \<and> (\<forall>b' j' w'. Cancelled b' j' w' \<notin> set pre) \<and>
     (tr = pre @ [Call k] \<and> res = op k \<and> (op k = None \<or> \<not> cl (op k)) \<or>
      tr = pre @ [Call k, LogError (mr + 1) (op k)] \<and> res = op k \<and> op k \<noteq> None \<and>
        cl (op k) \<and> int k = mr \<or>
      tr = pre @ [Call k, Cancelled ((doubleBackoff rt ^^ k) b)
                    (randomJitter rt k ((doubleBackoff rt ^^ k) b))
                    (nextBackoff rt k ((doubleBackoff rt ^^ k) b) mb)] \<and>
        res = Some (errorString ''operation cancelled during backoff'') \<and>
        op k \<noteq> None \<and> cl (op k) \<and> int k < mr \<and> ctx k)"
proof -
  have entered: "int 0 \<le> mr" using le by simp
  from retryLoop_shape [OF entered run] obtain pre k' where
    k': "int k' \<le> mr" "calls tr = Suc k' - 0"
    and before': "\<forall>j. 0 \<le> j \<and> j < k' \<longrightarrow> op j \<noteq> None \<and> cl (op j) \<and> \<not> ctx j"
    and clean: "\<forall>b' j' w'. Cancelled b' j' w' \<notin> set pre"
    and shape:
      "tr = pre @ [Call k'] \<and> res = op k' \<and> (op k' = None \<or> \<not> cl (op k')) \<or>
       tr = pre @ [Call k', LogError (mr + 1) (op k')] \<and> res = op k' \<and> op k' \<noteq> None \<and>
         cl (op k') \<and> int k' = mr \<or>
       tr = pre @ [Call k', Cancelled ((doubleBackoff rt ^^ (k' - 0)) b)
                     (randomJitter rt k' ((doubleBackoff rt ^^ (k' - 0)) b))
                     (nextBackoff rt k' ((doubleBackoff rt ^^ (k' - 0)) b) mb)] \<and>
         res = Some (errorString ''operation cancelled during backoff'') \<and>
         op k' \<noteq> None \<and> cl (op k') \<and> int k' < mr \<and> ctx k'"
    by blast
  have "k' = k"
  proof (rule ccontr)
    assume "k' \<noteq> k"
    then consider "k' < k" | "k < k'" by linarith
    then show False
    proof cases
      case 1
      with before have "op k' \<noteq> None" "cl (op k')" "\<not> ctx k'" by auto
      moreover from 1 le have "int k' \<noteq> mr" by simp
      ultimately show False using shape by auto
    next
      case 2
      with before' have "op k \<noteq> None" "cl (op k)" "\<not> ctx k" by auto
      moreover from 2 k'(1) have "int k \<noteq> mr" by simp
      ultimately show False using stop by auto
    qed
  qed
  with k'(2) clean shape show ?thesis by auto
qed

subsection \<open>The delays of a run\<close>



lemma int64_id: "- (2 ^ 63) \<le> x \<Longrightarrow> x < 2 ^ 63 \<Longrightarrow> int64 x = x"
  by (simp add: int64_def)

lemma nextBackoff_min:
  "nextBackoff rt k b mb = min (int64 (b + randomJitter rt k b)) mb"
  by (simp add: nextBackoff_def Let_def min_def)

lemma randomJitter_noJitter: "randomJitter noJitter k b = 0"
  by (simp add: randomJitter_def noJitter_def zeroDraw.rep_eq Duration_of_float64_def)

lemma nextBackoff_noJitter:
  "- (2 ^ 63) \<le> b \<Longrightarrow> b < 2 ^ 63 \<Longrightarrow> nextBackoff noJitter k b mb = min b mb"
  by (simp add: nextBackoff_min randomJitter_noJitter int64_id)

subsection \<open>The jitter\<close>



subsection \<open>Runs of an operation that always fails\<close>

lemma run_5:
  assumes "\<forall>k. op k \<noteq> None \<and> cl (op k)" and "\<forall>k. \<not> ctx k"
  shows "RetryWithBackoff rt ctx 5 Second (10 * Second) op cl =
    (op 5,
     [Call 0, Sleep Second (randomJitter rt 0 Second)
        (nextBackoff rt 0 Second (10 * Second)),
      LogInfo 1 5 (2 * Second), Call 1,
      Sleep (2 * Second) (randomJitter rt 1 (2 * Second))
        (nextBackoff rt 1 (2 * Second) (10 * Second)),
      LogInfo 2 5 (4 * Second), Call 2,
      Sleep (4 * Second) (randomJitter rt 2 (4 * Second))
        (nextBackoff rt 2 (4 * Second) (10 * Second)),
      LogInfo 3 5 (8 * Second), Call 3,
      Sleep (8 * Second) (randomJitter rt 3 (8 * Second))
        (nextBackoff rt 3 (8 * Second) (10 * Second)),
      LogInfo 4 5 (16 * Second), Call 4,
      Sleep (16 * Second) (randomJitter rt 4 (16 * Second))
        (nextBackoff rt 4 (16 * Second) (10 * Second)),
      LogInfo 5 5 (32 * Second), Call 5, LogError 6 (op 5)])"
  using assms
  by (simp add: RetryWithBackoff_def retryLoop_step retryLoop_last emit_def retryLog_def
      doubleBackoff_def Second_def eval_nat_numeral)

lemma run_4:
  assumes "\<forall>k. op k \<noteq> None \<and> cl (op k)" and "\<forall>k. \<not> ctx k"
  shows "RetryWithBackoff rt ctx 4 Second (10 * Second) op cl =
    (op 4,
     [Call 0, Sleep Second (randomJitter rt 0 Second)
        (nextBackoff rt 0 Second (10 * Second)),
      LogInfo 1 4 (2 * Second), Call 1,
      Sleep (2 * Second) (randomJitter rt 1 (2 * Second))
        (nextBackoff rt 1 (2 * Second) (10 * Second)),
      LogInfo 2 4 (4 * Second), Call 2,
      Sleep (4 * Second) (randomJitter rt 2 (4 * Second))
        (nextBackoff rt 2 (4 * Second) (10 * Second)),
      LogInfo 3 4 (8 * Second), Call 3,
      Sleep (8 * Second) (randomJitter rt 3 (8 * Second))
        (nextBackoff rt 3 (8 * Second) (10 * Second)),
      LogInfo 4 4 (16 * Second), Call 4, LogError 5 (op 4)])"
  using assms
  by (simp add: RetryWithBackoff_def retryLoop_step retryLoop_last emit_def retryLog_def
      doubleBackoff_def Second_def eval_nat_numeral)

lemma always_failing_calls:
  assumes fails: "\<forall>k. op k \<noteq> None \<and> cl (op k)" and live: "\<forall>k. \<not> ctx k" and "0 \<le> mr"
  shows "calls (snd (RetryWithBackoff rt ctx mr ib mb op cl)) = nat mr + 1"
proof -
  obtain res tr where run: "retryLoop rt ctx mr mb op cl 0 ib None = (res, tr)"
    by (cases "retryLoop rt ctx mr mb op cl 0 ib None")
  have "int 0 \<le> mr" using assms(3) by simp
  from retryLoop_shape [OF this run] fails live
  obtain k where "calls tr = Suc k - 0" "int k = mr"
    by blast
  then show ?thesis
    by (auto simp: RetryWithBackoff_def run)
qed

lemma retryable_timeout: "IsRetryableError (Some (errorString ''timeout''))"
  by (simp add: IsRetryableError_def IsTimeoutError_def)

lemma run_5_timeout:
  "RetryWithBackoff noJitter neverDone 5 Second (10 * Second) (alwaysFails ''timeout'')
     IsRetryableError =
    (Some (errorString ''timeout''),
     [Call 0, Sleep Second 0 Second,
      LogInfo 1 5 (2 * Second), Call 1, Sleep (2 * Second) 0 (2 * Second),
      LogInfo 2 5 (4 * Second), Call 2, Sleep (4 * Second) 0 (4 * Second),
      LogInfo 3 5 (8 * Second), Call 3, Sleep (8 * Second) 0 (8 * Second),
      LogInfo 4 5 (16 * Second), Call 4, Sleep (16 * Second) 0 (10 * Second),
      LogInfo 5 5 (32 * Second), Call 5, LogError 6 (Some (errorString ''timeout''))])"
proof -
  have fails: "\<forall>k. alwaysFails ''timeout'' k \<noteq> None \<and>
                   IsRetryableError (alwaysFails ''timeout'' k)"
    by (simp add: alwaysFails_def retryable_timeout)
  have live: "\<forall>k. \<not> neverDone k" by (simp add: neverDone_def)
  show ?thesis
    unfolding run_5 [OF fails live]
    by (simp add: nextBackoff_noJitter randomJitter_noJitter alwaysFails_def Second_def)
qed

lemma run_exhausted:
  "RetryWithBackoff noJitter neverDone 2 Second (10 * Second) (alwaysFails ''timeout'') retryAll =
    (Some (errorString ''timeout''),
     [Call 0, Sleep Second 0 Second,
      LogInfo 1 2 (2 * Second), Call 1, Sleep (2 * Second) 0 (2 * Second),
      LogInfo 2 2 (4 * Second), Call 2, LogError 3 (Some (errorString ''timeout''))])"
  by (simp add: RetryWithBackoff_def retryLoop_step retryLoop_last emit_def retryLog_def
      alwaysFails_def retryAll_def neverDone_def nextBackoff_noJitter randomJitter_noJitter
      doubleBackoff_def Second_def eval_nat_numeral)

lemma run_rejected:
  "RetryWithBackoff noJitter neverDone 2 Second (10 * Second) (alwaysFails ''timeout'') retryNone =
    (Some (errorString ''timeout''), [Call 0])"
  by (simp add: RetryWithBackoff_def retryLoop_return retryLog_def alwaysFails_def retryNone_def)

lemma run_cancelled:
  "RetryWithBackoff noJitter doneInSecondWait 5 Second (10 * Second) (alwaysFails ''timeout'')
     IsRetryableError =
    (Some (errorString ''operation cancelled during backoff''),
     [Call 0, Sleep Second 0 Second,
      LogInfo 1 5 (2 * Second), Call 1, Cancelled (2 * Second) 0 (2 * Second)])"
  by (simp add: RetryWithBackoff_def retryLoop_step retryLoop_cancel emit_def retryLog_def
      alwaysFails_def retryable_timeout doneInSecondWait_def nextBackoff_noJitter
      randomJitter_noJitter doubleBackoff_def Second_def eval_nat_numeral)

section \<open>Claims about the retry executor\<close>

text \<open>
  C1 (as amended). The integer argument of \<^verbatim>\<open>RetryWithBackoff\<close> counts retries, not
  attempts. With \<open>initialBackoff = 1s\<close>, \<open>maxBackoff = 10s\<close>, an operation whose every call
  fails with an error the classifier accepts, and no cancellation: the value 5 gives 6
  calls of the operation, with the delays before jitter \<open>1s, 2s, 4s, 8s, 16s\<close>; 5 calls
  with the delays \<open>1s, 2s, 4s, 8s\<close> are what the value 4 gives; and any value
  \<open>maxRetries \<ge> 0\<close> gives \<open>maxRetries + 1\<close> calls.
\<close>

theorem RetryWithBackoff_attempts_and_delays:
  assumes "\<forall>k. operation k \<noteq> None \<and> errorClassifier (operation k)" and "\<forall>k. \<not> ctx k"
  shows "calls (snd (RetryWithBackoff rt ctx 5 Second (10 * Second) operation
                       errorClassifier)) = 6 \<and>
         baseDelays (snd (RetryWithBackoff rt ctx 5 Second (10 * Second) operation
                            errorClassifier)) =
           [Second, 2 * Second, 4 * Second, 8 * Second, 16 * Second] \<and>
         calls (snd (RetryWithBackoff rt ctx 4 Second (10 * Second) operation
                       errorClassifier)) = 5 \<and>
         baseDelays (snd (RetryWithBackoff rt ctx 4 Second (10 * Second) operation
                            errorClassifier)) =
           [Second, 2 * Second, 4 * Second, 8 * Second] \<and>
         (0 \<le> maxRetries \<longrightarrow>
            calls (snd (RetryWithBackoff rt ctx maxRetries initialBackoff maxBackoff operation
                         errorClassifier)) = nat maxRetries + 1)"
  using always_failing_calls [OF assms]
  by (simp add: run_5 [OF assms] run_4 [OF assms])

theorem RetryWithBackoff_attempts_and_delays_witness:
  "(\<forall>k. alwaysFails ''timeout'' k \<noteq> None \<and> IsRetryableError (alwaysFails ''timeout'' k)) \<and>
   (\<forall>k. \<not> neverDone k) \<and>
   calls (snd (RetryWithBackoff noJitter neverDone 5 Second (10 * Second)
                 (alwaysFails ''timeout'') IsRetryableError)) = 6 \<and>
   baseDelays (snd (RetryWithBackoff noJitter neverDone 5 Second (10 * Second)
                 (alwaysFails ''timeout'') IsRetryableError)) =
     [Second, 2 * Second, 4 * Second, 8 * Second, 16 * Second] \<and>
   calls (snd (RetryWithBackoff noJitter neverDone 4 Second (10 * Second)
                 (alwaysFails ''timeout'') IsRetryableError)) = 5 \<and>
   baseDelays (snd (RetryWithBackoff noJitter neverDone 4 Second (10 * Second)
                 (alwaysFails ''timeout'') IsRetryableError)) =
     [Second, 2 * Second, 4 * Second, 8 * Second]"
proof -
  have fails: "\<forall>k. alwaysFails ''timeout'' k \<noteq> None \<and>
                   IsRetryableError (alwaysFails ''timeout'' k)"
    by (simp add: alwaysFails_def retryable_timeout)
  have live: "\<forall>k. \<not> neverDone k"
    by (simp add: neverDone_def)
  from RetryWithBackoff_attempts_and_delays [OF fails live, of noJitter] fails live
  show ?thesis
    by blast
qed

text \<open>
  C1 as stated fails: with the policy value 5 passed to \<^verbatim>\<open>RetryWithBackoff\<close>, an
  operation that always fails with \<^verbatim>\<open>timeout\<close> is not called 5 times with 4 delays; it
  is called 6 times.
\<close>

theorem RetryWithBackoff_five_attempts_counterexample:
  "\<not> (calls (snd (RetryWithBackoff noJitter neverDone 5 Second (10 * Second)
                    (alwaysFails ''timeout'') IsRetryableError)) = 5 \<and>
      baseDelays (snd (RetryWithBackoff noJitter neverDone 5 Second (10 * Second)
                    (alwaysFails ''timeout'') IsRetryableError)) =
        [Second, 2 * Second, 4 * Second, 8 * Second])"
  by (simp add: run_5_timeout)




text \<open>
  C4 (as amended). \<^verbatim>\<open>RetryWithBackoff\<close> has no typed failures. Let every call of the
  operation before the \<open>k\<close>-th fail with an error the classifier accepts, with no wait
  cancelled, and let the \<open>k\<close>-th call return an error \<open>e\<close> (\<open>k \<le> maxRetries\<close>). If the
  classifier rejects \<open>e\<close>, the first error it rejects, the run returns \<open>e\<close> itself and
  ends with that call: no wait and no further call follow. If the classifier accepts \<open>e\<close>
  and \<open>k = maxRetries\<close>, all \<open>maxRetries + 1\<close> attempts are spent and the run returns \<open>e\<close>
  itself, after the \<^verbatim>\<open>logger.Error\<close> call. In both cases the value returned is the
  operation's own last error, with no wrapper and no mark of which case it is.
\<close>

theorem RetryWithBackoff_returns_operation_error:
  assumes before: "\<forall>j<k. operation j \<noteq> None \<and> errorClassifier (operation j) \<and> \<not> ctx j"
      and le: "int k \<le> maxRetries"
      and failed: "operation k = Some e"
      and stop: "\<not> errorClassifier (Some e) \<or> int k = maxRetries"
  shows "fst (RetryWithBackoff rt ctx maxRetries initialBackoff maxBackoff operation
                errorClassifier) = Some e \<and>
         calls (snd (RetryWithBackoff rt ctx maxRetries initialBackoff maxBackoff operation
                       errorClassifier)) = Suc k \<and>
         (\<not> errorClassifier (Some e) \<longrightarrow>
            (\<exists>pre. snd (RetryWithBackoff rt ctx maxRetries initialBackoff maxBackoff operation
                           errorClassifier) = pre @ [Call k] \<and>
                    (\<forall>b' j' w'. Cancelled b' j' w' \<notin> set pre))) \<and>
         (errorClassifier (Some e) \<longrightarrow>
            (\<exists>pre. snd (RetryWithBackoff rt ctx maxRetries initialBackoff maxBackoff operation
                           errorClassifier) =
                      pre @ [Call k, LogError (maxRetries + 1) (Some e)] \<and>
                    (\<forall>b' j' w'. Cancelled b' j' w' \<notin> set pre)))"
proof -
  obtain res tr where run: "retryLoop rt ctx maxRetries maxBackoff operation errorClassifier 0
                              initialBackoff None = (res, tr)"
    by (cases "retryLoop rt ctx maxRetries maxBackoff operation errorClassifier 0
                 initialBackoff None")
  have stop': "operation k = None \<or> \<not> errorClassifier (operation k) \<or> int k = maxRetries \<or>
               ctx k"
    using stop failed by auto
  from retryLoop_reach [OF before le stop' run] failed stop
  show ?thesis
    by (auto simp: RetryWithBackoff_def run)
qed

theorem RetryWithBackoff_returns_operation_error_witness:
  "alwaysFails ''timeout'' 0 \<noteq> None \<and> retryAll (alwaysFails ''timeout'' 0) \<and> \<not> neverDone 0 \<and>
   alwaysFails ''timeout'' 1 \<noteq> None \<and> retryAll (alwaysFails ''timeout'' 1) \<and> \<not> neverDone 1 \<and>
   int 2 \<le> 2 \<and> alwaysFails ''timeout'' 2 = Some (errorString ''timeout'') \<and>
   retryAll (Some (errorString ''timeout'')) \<and>
   fst (RetryWithBackoff noJitter neverDone 2 Second (10 * Second) (alwaysFails ''timeout'')
          retryAll) = Some (errorString ''timeout'') \<and>
   calls (snd (RetryWithBackoff noJitter neverDone 2 Second (10 * Second)
                 (alwaysFails ''timeout'') retryAll)) = Suc 2 \<and>
   int 0 \<le> 2 \<and> alwaysFails ''timeout'' 0 = Some (errorString ''timeout'') \<and>
   \<not> retryNone (Some (errorString ''timeout'')) \<and>
   fst (RetryWithBackoff noJitter neverDone 2 Second (10 * Second) (alwaysFails ''timeout'')
          retryNone) = Some (errorString ''timeout'') \<and>
   calls (snd (RetryWithBackoff noJitter neverDone 2 Second (10 * Second)
                 (alwaysFails ''timeout'') retryNone)) = Suc 0 \<and>
   snd (RetryWithBackoff noJitter neverDone 2 Second (10 * Second) (alwaysFails ''timeout'')
          retryNone) = [Call 0]"
proof -
  have before2: "\<forall>j<2. alwaysFails ''timeout'' j \<noteq> None \<and> retryAll (alwaysFails ''timeout'' j) \<and>
                       \<not> neverDone j"
    by (simp add: alwaysFails_def retryAll_def neverDone_def)
  have le2: "int 2 \<le> 2" by simp
  have failed2: "alwaysFails ''timeout'' 2 = Some (errorString ''timeout'')"
    by (simp add: alwaysFails_def)
  have stop2: "\<not> retryAll (Some (errorString ''timeout'')) \<or> int 2 = 2" by simp
  have before0: "\<forall>j<0. alwaysFails ''timeout'' j \<noteq> None \<and> retryNone (alwaysFails ''timeout'' j) \<and>
                       \<not> neverDone j"
    by simp
  have le0: "int 0 \<le> 2" by simp
  have failed0: "alwaysFails ''timeout'' 0 = Some (errorString ''timeout'')"
    by (simp add: alwaysFails_def)
  have stop0: "\<not> retryNone (Some (errorString ''timeout'')) \<or> int 0 = 2"
    by (simp add: retryNone_def)
  have hyps: "alwaysFails ''timeout'' 0 \<noteq> None \<and> retryAll (alwaysFails ''timeout'' 0) \<and>
      \<not> neverDone 0 \<and> alwaysFails ''timeout'' 1 \<noteq> None \<and>
      retryAll (alwaysFails ''timeout'' 1) \<and> \<not> neverDone 1 \<and>
      retryAll (Some (errorString ''timeout'')) \<and> \<not> retryNone (Some (errorString ''timeout''))"
    by (simp add: alwaysFails_def retryAll_def retryNone_def neverDone_def)
  from RetryWithBackoff_returns_operation_error
         [OF before2 le2 failed2 stop2, of noJitter Second "10 * Second"]
       RetryWithBackoff_returns_operation_error
         [OF before0 le0 failed0 stop0, of noJitter Second "10 * Second"]
       hyps failed2 failed0
  show ?thesis
    by (simp add: run_rejected)
qed

text \<open>
  C4 as stated fails: a run that spends all three attempts of \<open>maxRetries = 2\<close> on an
  accepted error and a run whose classifier rejects the first error return the same
  value, the operation's error \<^verbatim>\<open>timeout\<close>.
\<close>

theorem RetryWithBackoff_indistinguishable_counterexample:
  "fst (RetryWithBackoff noJitter neverDone 2 Second (10 * Second) (alwaysFails ''timeout'')
          retryAll) = Some (errorString ''timeout'') \<and>
   calls (snd (RetryWithBackoff noJitter neverDone 2 Second (10 * Second)
                 (alwaysFails ''timeout'') retryAll)) = 3 \<and>
   fst (RetryWithBackoff noJitter neverDone 2 Second (10 * Second) (alwaysFails ''timeout'')
          retryNone) = Some (errorString ''timeout'') \<and>
   calls (snd (RetryWithBackoff noJitter neverDone 2 Second (10 * Second)
                 (alwaysFails ''timeout'') retryNone)) = 1"
  by (simp add: run_exhausted run_rejected)

text \<open>
  C8. Let a run of \<^verbatim>\<open>RetryWithBackoff\<close> reach the wait of iteration \<open>k\<close> (every call up
  to the \<open>k\<close>-th fails with an error the classifier accepts, no earlier wait is cancelled,
  and \<open>k < maxRetries\<close>), and let the cancellation fire in that wait (\<open>ctx k\<close>). Then the
  run returns the error \<^verbatim>\<open>operation cancelled during backoff\<close>, and its trace ends with
  the \<open>k\<close>-th call and the cancelled wait: the timer of that wait is not waited out, the
  operation has been called \<open>k + 1\<close> times and is not called again.
\<close>

theorem RetryWithBackoff_cancelled:
  assumes before: "\<forall>j<k. operation j \<noteq> None \<and> errorClassifier (operation j) \<and> \<not> ctx j"
      and failed: "operation k \<noteq> None" "errorClassifier (operation k)"
      and more: "int k < maxRetries"
      and fired: "ctx k"
  shows "fst (RetryWithBackoff rt ctx maxRetries initialBackoff maxBackoff operation
                errorClassifier) = Some (errorString ''operation cancelled during backoff'') \<and>
         calls (snd (RetryWithBackoff rt ctx maxRetries initialBackoff maxBackoff operation
                       errorClassifier)) = Suc k \<and>
         (\<exists>pre b j w. snd (RetryWithBackoff rt ctx maxRetries initialBackoff maxBackoff
                              operation errorClassifier) = pre @ [Call k, Cancelled b j w] \<and>
                       (\<forall>b' j' w'. Cancelled b' j' w' \<notin> set pre))"
proof -
  obtain res tr where run: "retryLoop rt ctx maxRetries maxBackoff operation errorClassifier 0
                              initialBackoff None = (res, tr)"
    by (cases "retryLoop rt ctx maxRetries maxBackoff operation errorClassifier 0
                 initialBackoff None")
  have le: "int k \<le> maxRetries" using more by simp
  have stop: "operation k = None \<or> \<not> errorClassifier (operation k) \<or> int k = maxRetries \<or>
              ctx k"
    using fired by simp
  from retryLoop_reach [OF before le stop run] failed more
  show ?thesis
    by (auto simp: RetryWithBackoff_def run)
qed

theorem RetryWithBackoff_cancelled_witness:
  "alwaysFails ''timeout'' 0 \<noteq> None \<and> IsRetryableError (alwaysFails ''timeout'' 0) \<and>
   \<not> doneInSecondWait 0 \<and>
   alwaysFails ''timeout'' 1 \<noteq> None \<and> IsRetryableError (alwaysFails ''timeout'' 1) \<and>
   int 1 < 5 \<and> doneInSecondWait 1 \<and>
   fst (RetryWithBackoff noJitter doneInSecondWait 5 Second (10 * Second)
          (alwaysFails ''timeout'') IsRetryableError) =
     Some (errorString ''operation cancelled during backoff'') \<and>
   calls (snd (RetryWithBackoff noJitter doneInSecondWait 5 Second (10 * Second)
                 (alwaysFails ''timeout'') IsRetryableError)) = Suc 1 \<and>
   snd (RetryWithBackoff noJitter doneInSecondWait 5 Second (10 * Second)
          (alwaysFails ''timeout'') IsRetryableError) =
     [Call 0, Sleep Second 0 Second, LogInfo 1 5 (2 * Second)] @
     [Call 1, Cancelled (2 * Second) 0 (2 * Second)]"
proof -
  have before: "\<forall>j<1. alwaysFails ''timeout'' j \<noteq> None \<and>
                      IsRetryableError (alwaysFails ''timeout'' j) \<and> \<not> doneInSecondWait j"
    by (simp add: alwaysFails_def retryable_timeout doneInSecondWait_def)
  have failed: "alwaysFails ''timeout'' 1 \<noteq> None" "IsRetryableError (alwaysFails ''timeout'' 1)"
    by (simp_all add: alwaysFails_def retryable_timeout)
  have more: "int 1 < 5" by simp
  have fired: "doneInSecondWait 1" by (simp add: doneInSecondWait_def)
  from RetryWithBackoff_cancelled [OF before failed more fired, of noJitter Second "10 * Second"]
    before failed more fired run_cancelled
  show ?thesis by simp
qed

text \<open>
  C9. For a negative \<open>maxRetries\<close> the loop test fails at once: \<^verbatim>\<open>RetryWithBackoff\<close>
  returns \<^verbatim>\<open>nil\<close> and its trace is empty, so the operation is not called, nothing is
  logged and there is no wait; the result does not depend on the classifier.
\<close>

theorem RetryWithBackoff_negative_maxRetries:
  "maxRetries < 0 \<Longrightarrow>
   RetryWithBackoff rt ctx maxRetries initialBackoff maxBackoff operation errorClassifier =
     (None, [])"
  by (simp add: RetryWithBackoff_def retryLoop_exit)

theorem RetryWithBackoff_negative_maxRetries_witness:
  "(- 1 :: int) < 0 \<and>
   RetryWithBackoff noJitter neverDone (- 1) Second (10 * Second) (alwaysFails ''timeout'')
     IsRetryableError = (None, [])"
  using RetryWithBackoff_negative_maxRetries
    [of "- 1" noJitter neverDone Second "10 * Second" "alwaysFails ''timeout''"
      IsRetryableError]
  by simp

section \<open>Facts about the cache store\<close>

lemma ValidateModelID_chat: "ValidateModelID ''deepseek-chat'' = None"
  by (simp add: ValidateModelID_def GetModelByID_def GetAvailableDeepseekModels_def
      getFallbackDeepseekModels_def)

lemma Sprintf_d_1000: "Sprintf_d 1000 = ''1000''"
  by (simp add: Sprintf_d_def)

lemma parseTTL_stub_1h:
  "parseTTL parseDurationStub s (chatRequest prompt ''1h'') = Inr Hour"
  by (simp add: parseTTL_def chatRequest_def parseDurationStub_def)

lemma createCache_brief:
  "createCache parseDurationStub 1000 1001 newServer (chatRequest ''be brief'' ''1h'') =
     (Inr briefEntry, newServer\<lparr>caches := [''cache-1000'' \<mapsto> briefEntry]\<rparr>)"
  by (simp add: createCache_def parseTTL_def parseDurationStub_def chatRequest_def
      ValidateModelID_chat Sprintf_d_1000 Let_def briefEntry_def newServer_def defaultConfig_def)

lemma createCache_stale:
  "createCache parseDurationStub 1000 1001 newServer (chatRequest ''be brief'' ''-1h'') =
     (Inr staleEntry, newServer\<lparr>caches := [''cache-1000'' \<mapsto> staleEntry]\<rparr>)"
  by (simp add: createCache_def parseTTL_def parseDurationStub_def chatRequest_def
      ValidateModelID_chat Sprintf_d_1000 Let_def staleEntry_def newServer_def defaultConfig_def)

lemma createCache_stored:
  "createCache ParseDuration now1 now2 s req = (Inr info, s') \<Longrightarrow>
   caches s' (ID info) = Some info"
  by (auto simp: createCache_def Let_def split: if_splits option.splits sum.splits)

lemma getCache_missing:
  "caches s cid = None \<Longrightarrow>
   getCache now s cid = (Inl (errorString (''cache not found: '' @ cid)), s)"
  by (simp add: getCache_def)

lemma getCacheSeq_missing:
  "caches s cid = None \<Longrightarrow>
   getCacheSeq nows s cid =
     replicate (length nows) (Inl (errorString (''cache not found: '' @ cid)))"
  by (induction nows) (simp_all add: getCache_missing)

section \<open>Claims about the cache store\<close>

text \<open>
  C3. The claim fails on the code at two calls of \<^verbatim>\<open>createCache\<close> that read the same
  clock value for the id: the id is \<^verbatim>\<open>cache-\<close> followed by that value and nothing else,
  so both calls return the id \<^verbatim>\<open>cache-1000\<close>, the second store replaces the first
  entry, and a \<^verbatim>\<open>getCache\<close> of the first caller's id returns the second caller's entry.
\<close>

theorem createCache_same_clock_reading:
  "createCache parseDurationStub 1000 1001 newServer (chatRequest ''be brief'' ''1h'') =
     (Inr briefEntry, newServer\<lparr>caches := [''cache-1000'' \<mapsto> briefEntry]\<rparr>) \<and>
   createCache parseDurationStub 1000 1002
       (newServer\<lparr>caches := [''cache-1000'' \<mapsto> briefEntry]\<rparr>)
       (chatRequest ''be thorough'' ''1h'') =
     (Inr thoroughEntry, newServer\<lparr>caches := [''cache-1000'' \<mapsto> thoroughEntry]\<rparr>) \<and>
   ID briefEntry = ID thoroughEntry \<and> briefEntry \<noteq> thoroughEntry \<and>
   getCache 2000 (newServer\<lparr>caches := [''cache-1000'' \<mapsto> thoroughEntry]\<rparr>) (ID briefEntry) =
     (Inr thoroughEntry, newServer\<lparr>caches := [''cache-1000'' \<mapsto> thoroughEntry]\<rparr>)"
proof -
  have second: "createCache parseDurationStub 1000 1002
       (newServer\<lparr>caches := [''cache-1000'' \<mapsto> briefEntry]\<rparr>)
       (chatRequest ''be thorough'' ''1h'') =
     (Inr thoroughEntry, newServer\<lparr>caches := [''cache-1000'' \<mapsto> thoroughEntry]\<rparr>)"
    by (simp add: createCache_def parseTTL_def parseDurationStub_def chatRequest_def
      ValidateModelID_chat Sprintf_d_1000 Let_def thoroughEntry_def newServer_def
      defaultConfig_def)
  have ids: "ID briefEntry = ID thoroughEntry" "briefEntry \<noteq> thoroughEntry"
    by (simp_all add: briefEntry_def thoroughEntry_def)
  have get: "getCache 2000 (newServer\<lparr>caches := [''cache-1000'' \<mapsto> thoroughEntry]\<rparr>)
       (ID briefEntry) =
     (Inr thoroughEntry, newServer\<lparr>caches := [''cache-1000'' \<mapsto> thoroughEntry]\<rparr>)"
    by (simp add: getCache_def briefEntry_def) (simp add: thoroughEntry_def Hour_def Second_def)
  show ?thesis using createCache_brief second ids get by simp
qed

text \<open>
  C5 (as amended). A call of \<^verbatim>\<open>createCache\<close> with caching enabled, a valid model and a
  TTL string that parses succeeds, whatever the sign of the parsed duration \<open>ttl\<close>: it
  stores and returns an entry with \<open>ExpiresAt = CreatedAt + ttl\<close>, which for \<open>ttl \<le> 0\<close> is
  not after \<open>CreatedAt\<close>. The sign of the TTL is not validated.
\<close>

theorem createCache_parsed_ttl_accepted:
  assumes "EnableCaching (config s)" and "req_Model req \<noteq> ''''"
      and "ValidateModelID (req_Model req) = None"
      and "req_TTL req \<noteq> ''''" and "ParseDuration (req_TTL req) = Inr ttl"
    shows "\<exists>info. createCache ParseDuration now1 now2 s req =
                    (Inr info, s\<lparr>caches := (caches s)(ID info \<mapsto> info)\<rparr>) \<and>
                  CreatedAt info = now2 \<and> ExpiresAt info = now2 + ttl \<and>
                  (ttl \<le> 0 \<longrightarrow> ExpiresAt info \<le> CreatedAt info)"
  using assms by (simp add: createCache_def parseTTL_def Let_def)

theorem createCache_parsed_ttl_accepted_witness:
  "EnableCaching (config newServer) \<and> req_Model (chatRequest ''be brief'' ''0s'') \<noteq> '''' \<and>
   ValidateModelID (req_Model (chatRequest ''be brief'' ''0s'')) = None \<and>
   req_TTL (chatRequest ''be brief'' ''0s'') \<noteq> '''' \<and>
   parseDurationStub (req_TTL (chatRequest ''be brief'' ''0s'')) = Inr 0 \<and>
   (\<exists>info. createCache parseDurationStub 1000 1001 newServer (chatRequest ''be brief'' ''0s'') =
            (Inr info, newServer\<lparr>caches := (caches newServer)(ID info \<mapsto> info)\<rparr>) \<and>
          CreatedAt info = 1001 \<and> ExpiresAt info = 1001 + 0 \<and>
          ExpiresAt info \<le> CreatedAt info)"
proof -
  have 1: "EnableCaching (config newServer)" by (simp add: newServer_def defaultConfig_def)
  have 2: "req_Model (chatRequest ''be brief'' ''0s'') \<noteq> ''''" by (simp add: chatRequest_def)
  have 3: "ValidateModelID (req_Model (chatRequest ''be brief'' ''0s'')) = None"
    by (simp add: chatRequest_def ValidateModelID_chat)
  have 4: "req_TTL (chatRequest ''be brief'' ''0s'') \<noteq> ''''" by (simp add: chatRequest_def)
  have 5: "parseDurationStub (req_TTL (chatRequest ''be brief'' ''0s'')) = Inr 0"
    by (simp add: chatRequest_def parseDurationStub_def)
  from createCache_parsed_ttl_accepted
      [of newServer "chatRequest ''be brief'' ''0s''" parseDurationStub 0 1000 1001]
    1 2 3 4 5
  show ?thesis by auto
qed

text \<open>
  C5 as stated fails: the TTL \<^verbatim>\<open>-1h\<close> parses to a negative duration, and the call
  succeeds and stores an entry that expired an hour before it was created.
\<close>

theorem createCache_negative_ttl_counterexample:
  "parseDurationStub (req_TTL (chatRequest ''be brief'' ''-1h'')) = Inr (- Hour) \<and> - Hour < 0 \<and>
   createCache parseDurationStub 1000 1001 newServer (chatRequest ''be brief'' ''-1h'') =
     (Inr staleEntry, newServer\<lparr>caches := [''cache-1000'' \<mapsto> staleEntry]\<rparr>) \<and>
   ExpiresAt staleEntry < CreatedAt staleEntry"
  by (simp add: createCache_stale)
     (simp add: parseDurationStub_def chatRequest_def staleEntry_def Hour_def Second_def)

text \<open>
  C6. If the table holds an entry under an id and the clock is strictly past the entry's
  \<open>ExpiresAt\<close>, then \<^verbatim>\<open>getCache\<close> of that id deletes the entry and fails with
  \<^verbatim>\<open>cache has expired\<close>, every later \<^verbatim>\<open>getCache\<close> of the id, at whatever clock
  readings \<open>nows\<close>, fails with \<^verbatim>\<open>cache not found: <id>\<close>, and the two errors differ.
\<close>

theorem getCache_expired_then_not_found:
  assumes "caches s cid = Some info" and "now > ExpiresAt info"
  shows "getCache now s cid =
           (Inl (errorString ''cache has expired''), s\<lparr>caches := (caches s)(cid := None)\<rparr>) \<and>
         getCacheSeq (now # nows) s cid =
           Inl (errorString ''cache has expired'') #
           replicate (length nows) (Inl (errorString (''cache not found: '' @ cid))) \<and>
         errorString ''cache has expired'' \<noteq> errorString (''cache not found: '' @ cid)"
proof -
  have expired: "getCache now s cid =
      (Inl (errorString ''cache has expired''), s\<lparr>caches := (caches s)(cid := None)\<rparr>)"
    using assms by (simp add: getCache_def)
  have gone: "caches (s\<lparr>caches := (caches s)(cid := None)\<rparr>) cid = None"
    by simp
  show ?thesis
    using expired getCacheSeq_missing [OF gone] by simp
qed

theorem getCache_expired_then_not_found_witness:
  "caches (snd (createCache parseDurationStub 1000 1001 newServer
                  (chatRequest ''be brief'' ''1h''))) (ID briefEntry) = Some briefEntry \<and>
   1002 + Hour > ExpiresAt briefEntry \<and>
   getCacheSeq [1002 + Hour, 1003 + Hour, 5]
     (snd (createCache parseDurationStub 1000 1001 newServer (chatRequest ''be brief'' ''1h'')))
     (ID briefEntry) =
   [Inl (errorString ''cache has expired''),
    Inl (errorString (''cache not found: '' @ ID briefEntry)),
    Inl (errorString (''cache not found: '' @ ID briefEntry))]"
proof -
  have held: "caches (snd (createCache parseDurationStub 1000 1001 newServer
      (chatRequest ''be brief'' ''1h''))) (ID briefEntry) = Some briefEntry"
    using createCache_stored [OF createCache_brief] by (simp add: createCache_brief)
  have late: "1002 + Hour > ExpiresAt briefEntry"
    by (simp add: briefEntry_def)
  show ?thesis
    using getCache_expired_then_not_found [OF held late, of "[1003 + Hour, 5]"] held late
    by (simp del: getCacheSeq.simps)
qed

text \<open>
  C7. A call of \<^verbatim>\<open>createCache\<close> that succeeds with a TTL \<open>ttl > 0\<close> (the parsed string,
  or the configured default for an empty string) returns an entry with
  \<open>ExpiresAt - CreatedAt = ttl\<close> exactly, where \<open>CreatedAt\<close> is the reading \<open>now2\<close> of the
  clock taken once, at creation.
\<close>

theorem createCache_expiry_exact:
  assumes "createCache ParseDuration now1 now2 s req = (Inr info, s')"
      and "parseTTL ParseDuration s req = Inr ttl"
      and "0 < ttl"
    shows "ExpiresAt info - CreatedAt info = ttl \<and> CreatedAt info = now2"
  using assms
  by (auto simp: createCache_def Let_def split: if_splits option.splits sum.splits)

theorem createCache_expiry_exact_witness:
  "createCache parseDurationStub 1000 1001 newServer (chatRequest ''be brief'' ''1h'') =
     (Inr briefEntry, newServer\<lparr>caches := [''cache-1000'' \<mapsto> briefEntry]\<rparr>) \<and>
   parseTTL parseDurationStub newServer (chatRequest ''be brief'' ''1h'') = Inr Hour \<and>
   0 < Hour \<and>
   ExpiresAt briefEntry - CreatedAt briefEntry = Hour \<and> CreatedAt briefEntry = 1001"
proof -
  have pos: "0 < Hour" by (simp add: Hour_def Second_def)
  show ?thesis
    using createCache_expiry_exact [OF createCache_brief parseTTL_stub_1h pos]
      createCache_brief parseTTL_stub_1h pos
    by simp
qed

text \<open>
  C10. With \<^verbatim>\<open>EnableCaching\<close> false, \<^verbatim>\<open>createCache\<close> returns the error
  \<^verbatim>\<open>caching is disabled\<close> and leaves the server, so the cache table, as it was. The
  result is the same whatever the request, the clock and \<^verbatim>\<open>time.ParseDuration\<close> are:
  the model is not validated, the TTL not parsed and no id generated before the test.
\<close>

theorem createCache_disabled:
  "\<not> EnableCaching (config s) \<Longrightarrow>
   createCache ParseDuration now1 now2 s req = (Inl (errorString ''caching is disabled''), s)"
  by (simp add: createCache_def)

theorem createCache_disabled_witness:
  "\<not> EnableCaching (config disabledServer) \<and>
   createCache parseDurationStub 1000 1001 disabledServer (chatRequest ''be brief'' ''1h'')
     = (Inl (errorString ''caching is disabled''), disabledServer)"
  using createCache_disabled
    [of disabledServer parseDurationStub 1000 1001 "chatRequest ''be brief'' ''1h''"]
  by (simp add: disabledServer_def defaultConfig_def)

end
